theory Spec2Isabelle
  imports Main "HOL-Library.AList"
begin

section \<open>Strings\<close>

text \<open>
  JavaScript strings are modelled as HOL strings. The code compares device identifiers
  and cache types with ASCII literals only, so the model of \<open>toLowerCase\<close> lowers the
  letters A to Z and leaves every other character alone: no character outside A to Z
  lower-cases to a letter of \<open>metal\<close> or \<open>cpu\<close>.
\<close>

definition lower_char :: "char \<Rightarrow> char" where
  "lower_char c =
     (if 65 \<le> (of_char c :: nat) \<and> (of_char c :: nat) \<le> 90
      then char_of ((of_char c :: nat) + 32) else c)"

definition toLowerCase :: "string \<Rightarrow> string" where
  "toLowerCase s = map lower_char s"

text \<open>\<open>s.startsWith(p)\<close>\<close>

definition startsWith :: "string \<Rightarrow> string \<Rightarrow> bool" where
  "startsWith s p = (take (length p) s = p)"

text \<open>\<open>s.includes(p)\<close>: \<open>p\<close> occurs in \<open>s\<close> as a contiguous run.\<close>

fun js_includes :: "string \<Rightarrow> string \<Rightarrow> bool" where
  "js_includes [] p = (p = [])"
| "js_includes (c # s) p = (startsWith (c # s) p \<or> js_includes s p)"

section \<open>Flash attention compatibility (utils/flashAttnCompatibility.ts)\<close>

datatype FlashAttnType = Auto | On | Off

datatype BackendType = Metal | Opencl | Hexagon | Cpu | Blas

text \<open>
  Modelled from the spec: the enum \<open>CacheType\<close> of utils/types.ts, which is not among
  the sources. The spec gives it as the closed enum
  \<open>{f16, f32, q8_0, q5_1, q5_0, q4_1, q4_0, iq4_nl}\<close>; a TypeScript string enum member is
  its string value at run time.
\<close>

datatype CacheType = F16 | F32 | Q8_0 | Q5_1 | Q5_0 | Q4_1 | Q4_0 | IQ4_NL

fun cacheTypeValue :: "CacheType \<Rightarrow> string" where
  "cacheTypeValue F16 = ''f16''"
| "cacheTypeValue F32 = ''f32''"
| "cacheTypeValue Q8_0 = ''q8_0''"
| "cacheTypeValue Q5_1 = ''q5_1''"
| "cacheTypeValue Q5_0 = ''q5_0''"
| "cacheTypeValue Q4_1 = ''q4_1''"
| "cacheTypeValue Q4_0 = ''q4_0''"
| "cacheTypeValue IQ4_NL = ''iq4_nl''"

text \<open>The verdict object \<open>{safe: boolean; reason?: string}\<close>.\<close>

record Verdict =
  safe :: bool
  reason :: "string option"

definition isQuantizedCacheType :: "string \<Rightarrow> bool" where
  "isQuantizedCacheType cacheType =
     (cacheType \<noteq> cacheTypeValue F16 \<and> cacheType \<noteq> cacheTypeValue F32 \<and>
      cacheType \<noteq> ''f16'' \<and> cacheType \<noteq> ''f32'')"

definition isCacheTypeVSafe :: "string \<Rightarrow> FlashAttnType \<Rightarrow> BackendType \<Rightarrow> Verdict" where
  "isCacheTypeVSafe cacheTypeV flashAttnType backend =
     (if \<not> isQuantizedCacheType cacheTypeV then \<lparr>safe = True, reason = None\<rparr>
      else if flashAttnType = Off then
        \<lparr>safe = False,
         reason = Some ''Quantized V cache requires flash attention to be enabled''\<rparr>
      else if flashAttnType = On then
        (if backend = Opencl then
           \<lparr>safe = False,
            reason = Some
              ''OpenCL does not support flash attention (required for quantized V cache)''\<rparr>
         else if backend = Hexagon then
           \<lparr>safe = False,
            reason = Some
              ''Hexagon flash attention support varies by device (use \"off\" with F16/F32 for safety)''\<rparr>
         else \<lparr>safe = True, reason = None\<rparr>)
      else if backend = Opencl then
        \<lparr>safe = False,
         reason = Some
           ''OpenCL auto-disables flash attention, quantized V cache will fail at runtime''\<rparr>
      else if backend = Hexagon then
        \<lparr>safe = False,
         reason = Some
           ''Hexagon flash attention support varies by device; quantized V cache may fail at runtime''\<rparr>
      else \<lparr>safe = True, reason = None\<rparr>)"

definition isCacheTypeKSafe :: "string \<Rightarrow> FlashAttnType \<Rightarrow> BackendType \<Rightarrow> Verdict" where
  "isCacheTypeKSafe cacheTypeK flashAttnType backend = \<lparr>safe = True, reason = None\<rparr>"

subsection \<open>The compatibility matrix as the specification words it\<close>

text \<open>
  The V-cache rule table of the specification, row by row: \<open>None\<close> is the verdict
  \<open>safe\<close>, \<open>Some r\<close> the verdict \<open>unsafe\<close> with the reason \<open>r\<close> the table gives.
\<close>

fun spec_quantized :: "CacheType \<Rightarrow> bool" where
  "spec_quantized F16 = False"
| "spec_quantized F32 = False"
| "spec_quantized _ = True"

fun spec_v_table :: "bool \<Rightarrow> FlashAttnType \<Rightarrow> BackendType \<Rightarrow> string option" where
  "spec_v_table False _ _ = None"
| "spec_v_table True Off _ = Some ''quantized V cache requires flash attention''"
| "spec_v_table True On Opencl = Some ''OpenCL does not support flash attention''"
| "spec_v_table True On Hexagon = Some ''Hexagon flash attention support varies by device''"
| "spec_v_table True On _ = None"
| "spec_v_table True Auto Opencl = Some ''OpenCL auto-disables flash attention''"
| "spec_v_table True Auto Hexagon = Some ''Hexagon flash attention support varies by device''"
| "spec_v_table True Auto _ = None"

text \<open>
  A verdict agrees with a table entry when both say safe (and the verdict carries no
  reason), or both say unsafe and the verdict's reason contains the table's wording,
  letter case aside.
\<close>

fun verdict_matches :: "Verdict \<Rightarrow> string option \<Rightarrow> bool" where
  "verdict_matches v None = (safe v \<and> reason v = None)"
| "verdict_matches v (Some r) =
     (\<not> safe v \<and>
      (case reason v of None \<Rightarrow> False
       | Some r' \<Rightarrow> js_includes (toLowerCase r') (toLowerCase r)))"

section \<open>JavaScript values\<close>

text \<open>
  A persisted configuration is a JSON-like value of unknown shape (\<open>any\<close> in the
  source). An object is the list of its own properties in property order; assignment to
  an existing key keeps its place, assignment to a new key appends, \<open>delete\<close> removes
  (\<open>AList.update\<close>, \<open>AList.delete\<close>), and a read looks the key up (\<open>map_of\<close>).
  Numbers are integers: the code only compares them with \<open>0\<close> and \<open>1024\<close> and
  tests them for falsiness.
\<close>

datatype jsval =
    JUndefined
  | JNull
  | JBool bool
  | JNum int
  | JStr string
  | JArr "jsval list"
  | JObj "(string \<times> jsval) list"

type_synonym props = "(string \<times> jsval) list"

text \<open>Property read \<open>o.k\<close> on an object: a missing key reads as \<open>undefined\<close>.\<close>

definition js_get :: "props \<Rightarrow> string \<Rightarrow> jsval" where
  "js_get ps k = (case map_of ps k of None \<Rightarrow> JUndefined | Some v \<Rightarrow> v)"

text \<open>\<open>k in o\<close> on an object built by an object literal.\<close>

definition has_key :: "string \<Rightarrow> props \<Rightarrow> bool" where
  "has_key k ps = (map_of ps k \<noteq> None)"

text \<open>\<open>!v\<close>\<close>

fun js_falsy :: "jsval \<Rightarrow> bool" where
  "js_falsy JUndefined = True"
| "js_falsy JNull = True"
| "js_falsy (JBool b) = (\<not> b)"
| "js_falsy (JNum n) = (n = 0)"
| "js_falsy (JStr s) = (s = [])"
| "js_falsy (JArr xs) = False"
| "js_falsy (JObj ps) = False"

text \<open>\<open>typeof v === 'boolean'\<close>\<close>

fun is_boolean :: "jsval \<Rightarrow> bool" where
  "is_boolean (JBool b) = True"
| "is_boolean _ = False"

text \<open>Decimal rendering of an array index, the property key of an element.\<close>

fun show_nat :: "nat \<Rightarrow> string" where
  "show_nat n =
     (if n < 10 then [char_of (48 + n)]
      else show_nat (n div 10) @ [char_of (48 + n mod 10)])"

declare show_nat.simps [simp del]

definition index_props :: "jsval list \<Rightarrow> props" where
  "index_props xs = zip (map show_nat [0..<length xs]) xs"

text \<open>
  Object spread \<open>{...v}\<close> copies the own enumerable properties of \<open>v\<close>: those of an
  object, the elements of an array and the characters of a string under their indices,
  and nothing for \<open>undefined\<close>, \<open>null\<close>, a boolean or a number. It never throws.
\<close>

fun js_spread :: "jsval \<Rightarrow> props" where
  "js_spread (JObj ps) = ps"
| "js_spread (JArr xs) = index_props xs"
| "js_spread (JStr s) = index_props (map (\<lambda>c. JStr [c]) s)"
| "js_spread _ = []"

datatype error = TypeError

text \<open>
  \<open>k in v\<close> on an arbitrary value: a \<open>TypeError\<close> when \<open>v\<close> is not an object. None of
  the keys the code looks for is a property of \<open>Object.prototype\<close> or
  \<open>Array.prototype\<close>, so only own properties are modelled.
\<close>

fun js_in :: "string \<Rightarrow> jsval \<Rightarrow> error + bool" where
  "js_in k (JObj ps) = Inr (has_key k ps)"
| "js_in k (JArr xs) = Inr (k = ''length'' \<or> has_key k (index_props xs))"
| "js_in k _ = Inl TypeError"

section \<open>Versioned context parameters (contextInitParamsVersions)\<close>

text \<open>\<open>Platform.OS\<close> of react-native, threaded as a parameter.\<close>

datatype PlatformOS = Ios | Android | OtherOS

definition CURRENT_CONTEXT_INIT_PARAMS_VERSION :: string where
  "CURRENT_CONTEXT_INIT_PARAMS_VERSION = ''2.0''"

text \<open>
  \<open>migrateContextInitParams\<close> mutates its clone statement by statement. Each statement
  of the source is one function from the properties before it to the properties after
  it, in source order; the two version blocks and the migrator compose them.
\<close>

text \<open>Legacy to 1.0: \<open>n_context\<close> becomes \<open>n_ctx\<close> unless \<open>n_ctx\<close> is there.\<close>

definition rename_n_context :: "props \<Rightarrow> props" where
  "rename_n_context p =
     (if has_key ''n_context'' p \<and> \<not> has_key ''n_ctx'' p
      then AList.delete ''n_context'' (AList.update ''n_ctx'' (js_get p ''n_context'') p)
      else p)"

definition default_use_mlock :: "props \<Rightarrow> props" where
  "default_use_mlock p =
     (if js_get p ''use_mlock'' = JUndefined
      then AList.update ''use_mlock'' (JBool False) p else p)"

definition default_use_mmap :: "PlatformOS \<Rightarrow> props \<Rightarrow> props" where
  "default_use_mmap os p =
     (if js_get p ''use_mmap'' = JUndefined
      then AList.update ''use_mmap'' (JStr (if os = Android then ''smart'' else ''true'')) p
      else if is_boolean (js_get p ''use_mmap'')
      then AList.update ''use_mmap''
             (JStr (if js_get p ''use_mmap'' = JBool True then ''true'' else ''false'')) p
      else p)"

definition default_no_gpu_devices :: "props \<Rightarrow> props" where
  "default_no_gpu_devices p =
     (if js_get p ''no_gpu_devices'' = JUndefined
      then AList.update ''no_gpu_devices'' (JBool False) p else p)"

definition migrate_legacy_to_1_0 :: "PlatformOS \<Rightarrow> props \<Rightarrow> props" where
  "migrate_legacy_to_1_0 os p0 =
     (let p1 = rename_n_context p0;
          p2 = default_use_mlock p1;
          p3 = default_use_mmap os p2;
          p4 = default_no_gpu_devices p3
      in AList.update ''version'' (JStr ''1.0'') p4)"

text \<open>1.0 to 2.0: \<open>no_gpu_devices\<close> becomes the device model; the field itself stays.\<close>

definition migrate_no_gpu_devices :: "props \<Rightarrow> props" where
  "migrate_no_gpu_devices p =
     (if has_key ''no_gpu_devices'' p then
        (if js_get p ''no_gpu_devices'' = JBool True
         then AList.update ''devices'' JUndefined (AList.update ''n_gpu_layers'' (JNum 0) p)
         else
           (let q = AList.update ''devices'' JUndefined p
            in if js_get q ''n_gpu_layers'' = JUndefined \<or> js_get q ''n_gpu_layers'' = JNum 0
               then AList.update ''n_gpu_layers'' (JNum 99) q else q))
      else p)"

text \<open>A boolean \<open>flash_attn\<close> becomes \<open>flash_attn_type\<close>; the field itself stays.\<close>

definition migrate_flash_attn :: "PlatformOS \<Rightarrow> props \<Rightarrow> props" where
  "migrate_flash_attn os p =
     (if has_key ''flash_attn'' p \<and> is_boolean (js_get p ''flash_attn'') then
        (if js_get p ''flash_attn'' = JBool True
         then AList.update ''flash_attn_type'' (JStr (if os = Ios then ''auto'' else ''off'')) p
         else AList.update ''flash_attn_type'' (JStr ''off'') p)
      else if js_falsy (js_get p ''flash_attn_type'')
      then AList.update ''flash_attn_type'' (JStr (if os = Ios then ''auto'' else ''off'')) p
      else p)"

definition default_kv_unified :: "props \<Rightarrow> props" where
  "default_kv_unified p =
     (if js_get p ''kv_unified'' = JUndefined
      then AList.update ''kv_unified'' (JBool True) p else p)"

definition default_n_parallel :: "props \<Rightarrow> props" where
  "default_n_parallel p =
     (if js_get p ''n_parallel'' = JUndefined
      then AList.update ''n_parallel'' (JNum 1) p else p)"

definition bump_default_n_ctx :: "props \<Rightarrow> props" where
  "bump_default_n_ctx p =
     (if js_get p ''n_ctx'' = JNum 1024
      then AList.update ''n_ctx'' (JNum 2048) p else p)"

definition migrate_1_0_to_2_0 :: "PlatformOS \<Rightarrow> props \<Rightarrow> props" where
  "migrate_1_0_to_2_0 os p0 =
     (let p1 = migrate_no_gpu_devices p0;
          p2 = migrate_flash_attn os p1;
          p3 = default_kv_unified p2;
          p4 = default_n_parallel p3;
          p5 = bump_default_n_ctx p4
      in AList.update ''version'' (JStr ''2.0'') p5)"

text \<open>A blob without a version is taken as legacy.\<close>

definition default_version :: "props \<Rightarrow> props" where
  "default_version p =
     (if js_get p ''version'' = JUndefined
      then AList.update ''version'' (JStr ''0.0'') p else p)"

definition migrateContextInitParams :: "PlatformOS \<Rightarrow> jsval \<Rightarrow> jsval" where
  "migrateContextInitParams os params =
     (let p0 = js_spread params;
          p1 = default_version p0;
          p2 = (if js_get p1 ''version'' = JStr ''0.0'' \<or> js_falsy (js_get p1 ''version'')
                then migrate_legacy_to_1_0 os p1 else p1);
          p3 = (if js_get p2 ''version'' = JStr ''1.0''
                then migrate_1_0_to_2_0 os p2 else p2)
      in JObj (AList.update ''version'' (JStr CURRENT_CONTEXT_INIT_PARAMS_VERSION) p3))"

definition requiredFields :: "string list" where
  "requiredFields =
     [''version'', ''n_ctx'', ''n_batch'', ''n_ubatch'', ''n_threads'',
      ''cache_type_k'', ''cache_type_v'', ''n_gpu_layers'', ''use_mlock'', ''use_mmap'']"

text \<open>
  \<open>fields.every(field => field in params)\<close>: stops at the first missing field, and
  throws what \<open>in\<close> throws.
\<close>

fun every_in :: "string list \<Rightarrow> jsval \<Rightarrow> error + bool" where
  "every_in [] v = Inr True"
| "every_in (f # fs) v =
     (case js_in f v of
        Inl e \<Rightarrow> Inl e
      | Inr b \<Rightarrow> if b then every_in fs v else Inr False)"

definition validateContextInitParams :: "jsval \<Rightarrow> error + bool" where
  "validateContextInitParams params = every_in requiredFields params"

definition createDefaultContextInitParams :: "PlatformOS \<Rightarrow> jsval" where
  "createDefaultContextInitParams os =
     JObj [(''version'', JStr CURRENT_CONTEXT_INIT_PARAMS_VERSION),
           (''n_ctx'', JNum 2048),
           (''n_batch'', JNum 512),
           (''n_ubatch'', JNum 512),
           (''n_threads'', JNum 4),
           (''cache_type_k'', JStr ''f16''),
           (''cache_type_v'', JStr ''f16''),
           (''n_gpu_layers'', JNum 99),
           (''use_mlock'', JBool False),
           (''use_mmap'', JStr (if os = Android then ''smart'' else ''true'')),
           (''devices'', JUndefined),
           (''flash_attn_type'', JStr (if os = Ios then ''auto'' else ''off'')),
           (''kv_unified'', JBool True),
           (''n_parallel'', JNum 1)]"

section \<open>Device selection (utils/deviceSelection.ts)\<close>

text \<open>
  Modelled from the spec: the type \<open>NativeBackendDeviceInfo\<close> of llama.rn, which is not
  among the sources. The spec gives the capability probe as returning a list of
  \<open>{deviceName: string, type: "cpu"|"gpu"|"npu", ...}\<close>; the code reads only these two
  fields, and compares \<open>type\<close> with the string \<open>gpu\<close>.
\<close>

record NativeBackendDeviceInfo =
  deviceName :: string
  dev_type :: string

text \<open>
  What the call \<open>await getBackendDevicesInfo()\<close> of llama.rn can do: reject, or resolve
  to a list of devices or to \<open>null\<close>/\<open>undefined\<close> (\<open>None\<close>).
\<close>

datatype ProbeOutcome = ProbeThrows | ProbeReturns "NativeBackendDeviceInfo list option"

definition getAvailableDevices :: "ProbeOutcome \<Rightarrow> NativeBackendDeviceInfo list" where
  "getAvailableDevices probe =
     (case probe of
        ProbeThrows \<Rightarrow> []
      | ProbeReturns None \<Rightarrow> []
      | ProbeReturns (Some devices) \<Rightarrow> devices)"

datatype DeviceId = AutoId | GpuId | HexagonId | CpuId

datatype OptionPlatform = PlatformIos | PlatformAndroid | PlatformBoth

record DeviceOption =
  option_id :: DeviceId
  label :: string
  description :: string
  devices :: "string list option"
  n_gpu_layers :: int
  default_flash_attn_type :: FlashAttnType
  valid_flash_attn_types :: "FlashAttnType list"
  tag :: "string option"
  experimental :: "bool option"
  platform :: OptionPlatform
  deviceInfo :: "NativeBackendDeviceInfo option"

definition getDeviceOptions :: "PlatformOS \<Rightarrow> ProbeOutcome \<Rightarrow> DeviceOption list" where
  "getDeviceOptions os probe =
     (if os = Ios then
        [\<lparr>option_id = AutoId, label = ''Auto'',
          description = ''Automatically selects Metal GPU (Recommended)'',
          devices = None, n_gpu_layers = 99,
          default_flash_attn_type = Auto, valid_flash_attn_types = [Auto, On, Off],
          tag = Some ''Recommended'', experimental = None,
          platform = PlatformIos, deviceInfo = None\<rparr>,
         \<lparr>option_id = GpuId, label = ''Metal'',
          description = ''Explicitly use Metal GPU acceleration'',
          devices = Some [''Metal''], n_gpu_layers = 99,
          default_flash_attn_type = Auto, valid_flash_attn_types = [Auto, On, Off],
          tag = None, experimental = None,
          platform = PlatformIos, deviceInfo = None\<rparr>,
         \<lparr>option_id = CpuId, label = ''CPU'',
          description = ''CPU only (slower, for testing or compatibility)'',
          devices = Some [''CPU''], n_gpu_layers = 0,
          default_flash_attn_type = Auto, valid_flash_attn_types = [Auto, On, Off],
          tag = None, experimental = None,
          platform = PlatformIos, deviceInfo = None\<rparr>]
      else
        (let devs = getAvailableDevices probe;
             hexagonDevs = filter (\<lambda>d. startsWith (deviceName d) ''HTP'') devs;
             hasHexagon = (length hexagonDevs > 0);
             gpuDev = find (\<lambda>d. dev_type d = ''gpu'') devs
         in
           [\<lparr>option_id = CpuId, label = ''CPU'',
             description = ''CPU only (Slowest, but works with all models)'',
             devices = Some [''CPU''], n_gpu_layers = 0,
             default_flash_attn_type = Off, valid_flash_attn_types = [Auto, On, Off],
             tag = Some ''Recommended'', experimental = None,
             platform = PlatformAndroid, deviceInfo = None\<rparr>]
           @ (case gpuDev of
                None \<Rightarrow> []
              | Some g \<Rightarrow>
                  [\<lparr>option_id = GpuId, label = ''GPU (OpenCL)'',
                    description = ''OpenCL GPU acceleration (Only for Q4_0/Q6_K models)'',
                    devices = Some [deviceName g], n_gpu_layers = 99,
                    default_flash_attn_type = Off, valid_flash_attn_types = [Off],
                    tag = Some ''Fastest'', experimental = None,
                    platform = PlatformAndroid, deviceInfo = Some g\<rparr>])
           @ (if hasHexagon then
                [\<lparr>option_id = HexagonId, label = ''Hexagon'',
                  description = ''Qualcomm NPU (Experimental, fastest but may be unstable)'',
                  devices = Some [''HTP*''], n_gpu_layers = 99,
                  default_flash_attn_type = Off, valid_flash_attn_types = [Off],
                  tag = Some ''Experimental'', experimental = Some True,
                  platform = PlatformAndroid,
                  deviceInfo = (case hexagonDevs of [] \<Rightarrow> None | h # _ \<Rightarrow> Some h)\<rparr>]
              else [])))"

section \<open>Backend resolution (inferBackendType)\<close>

text \<open>
  \<open>inferBackendType(devices?)\<close>: \<open>None\<close> is an absent argument. The awaited probe is
  the parameter \<open>probe\<close>; it is consulted only on the path that reaches it.
\<close>

definition inferBackendType ::
    "PlatformOS \<Rightarrow> ProbeOutcome \<Rightarrow> string list option \<Rightarrow> BackendType" where
  "inferBackendType os probe devs =
     (case devs of
        Some (primaryDevice # rest) \<Rightarrow>
          (let deviceLower = toLowerCase primaryDevice
           in if deviceLower = ''metal'' then Metal
              else if deviceLower = ''cpu'' then Cpu
              else if startsWith primaryDevice ''HTP'' then Hexagon
              else if os = Android then Opencl
              else Cpu)
      | _ \<Rightarrow>
          (if os = Ios then Metal
           else
             (let availableDevices = getAvailableDevices probe;
                  hasGpu = list_ex (\<lambda>d. dev_type d = ''gpu'') availableDevices
              in if hasGpu then Opencl else Cpu)))"

section \<open>Selecting a device (settings screen)\<close>

text \<open>
  The part of \<open>modelStore.contextInitParams\<close> that selecting a device reads and writes.
  \<open>flash_attn_type\<close> may be missing from a stored configuration, which the handler
  covers with \<open>??\<close>.
\<close>

record StoreParams =
  store_devices :: "string list option"
  store_flash_attn_type :: "FlashAttnType option"

text \<open>
  Modelled from the spec: \<open>modelStore.setDevices\<close> and \<open>modelStore.setFlashAttnType\<close>,
  whose store is not among the sources. Every change produces a new configuration value
  in which the named setting is replaced.
\<close>

definition setDevices :: "string list option \<Rightarrow> StoreParams \<Rightarrow> StoreParams" where
  "setDevices ds st = st\<lparr>store_devices := ds\<rparr>"

definition setFlashAttnType :: "FlashAttnType \<Rightarrow> StoreParams \<Rightarrow> StoreParams" where
  "setFlashAttnType fa st = st\<lparr>store_flash_attn_type := Some fa\<rparr>"

text \<open>The value the handler takes as the current one: \<open>flash_attn_type ?? default\<close>.\<close>

definition currentFlashAttn :: "PlatformOS \<Rightarrow> StoreParams \<Rightarrow> FlashAttnType" where
  "currentFlashAttn os st =
     (case store_flash_attn_type st of
        Some fa \<Rightarrow> fa
      | None \<Rightarrow> if os = Ios then Auto else Off)"

definition handleDeviceSelect :: "PlatformOS \<Rightarrow> DeviceOption \<Rightarrow> StoreParams \<Rightarrow> StoreParams" where
  "handleDeviceSelect os opt st0 =
     (let st1 = setDevices (devices opt) st0;
          cur = currentFlashAttn os st1
      in if cur \<notin> set (valid_flash_attn_types opt)
         then setFlashAttnType (default_flash_attn_type opt) st1
         else st1)"

section \<open>Ordering schema versions\<close>

text \<open>
  The schema versions \<open>0.0\<close>, \<open>1.0\<close>, \<open>2.0\<close>, ... are tags \<open>major.minor\<close> in decimal
  digits, ordered by major number first and minor number second. A string that is not
  such a tag is neither earlier nor later than any version.
\<close>

definition digit_of :: "char \<Rightarrow> nat option" where
  "digit_of c =
     (if 48 \<le> (of_char c :: nat) \<and> (of_char c :: nat) \<le> 57
      then Some ((of_char c :: nat) - 48) else None)"

fun parse_digits :: "nat \<Rightarrow> string \<Rightarrow> nat option" where
  "parse_digits acc [] = Some acc"
| "parse_digits acc (c # cs) =
     (case digit_of c of None \<Rightarrow> None | Some d \<Rightarrow> parse_digits (10 * acc + d) cs)"

definition parse_nat :: "string \<Rightarrow> nat option" where
  "parse_nat s = (if s = [] then None else parse_digits 0 s)"

definition parse_version :: "string \<Rightarrow> (nat \<times> nat) option" where
  "parse_version s =
     (case dropWhile (\<lambda>c. c \<noteq> CHR ''.'') s of
        [] \<Rightarrow> None
      | dot # minor \<Rightarrow>
          (case parse_nat (takeWhile (\<lambda>c. c \<noteq> CHR ''.'') s) of
             None \<Rightarrow> None
           | Some a \<Rightarrow>
               (case parse_nat minor of None \<Rightarrow> None | Some b \<Rightarrow> Some (a, b))))"

definition version_earlier :: "string \<Rightarrow> string \<Rightarrow> bool" where
  "version_earlier v w =
     (case parse_version v of
        None \<Rightarrow> False
      | Some (a, b) \<Rightarrow>
          (case parse_version w of
             None \<Rightarrow> False
           | Some (c, d) \<Rightarrow> a < c \<or> (a = c \<and> b < d)))"

section \<open>Sample inputs\<close>

text \<open>
  A configuration as schema 1.0 persisted it: the ten fields of that schema and none of
  the fields that 2.0 added.
\<close>

definition v1_fields_only :: jsval where
  "v1_fields_only =
     JObj [(''version'', JStr ''2.0''),
           (''n_ctx'', JNum 2048),
           (''n_batch'', JNum 512),
           (''n_ubatch'', JNum 512),
           (''n_threads'', JNum 4),
           (''cache_type_k'', JStr ''f16''),
           (''cache_type_v'', JStr ''f16''),
           (''n_gpu_layers'', JNum 0),
           (''use_mlock'', JBool False),
           (''use_mmap'', JStr ''true'')]"

text \<open>A blob tagged by a later release of the application.\<close>

definition future_blob :: jsval where
  "future_blob = JObj [(''version'', JStr ''3.0''), (''n_ctx'', JNum 4096)]"

text \<open>Probe results: a phone with no accelerator, and one with an Adreno GPU and an NPU.\<close>

definition cpu_only_probe :: ProbeOutcome where
  "cpu_only_probe = ProbeReturns (Some [\<lparr>deviceName = ''CPU'', dev_type = ''cpu''\<rparr>])"

definition snapdragon_probe :: ProbeOutcome where
  "snapdragon_probe =
     ProbeReturns (Some [\<lparr>deviceName = ''Adreno (TM) 750'', dev_type = ''gpu''\<rparr>,
                         \<lparr>deviceName = ''HTP0'', dev_type = ''npu''\<rparr>])"

section \<open>The compatibility matrix\<close>

lemma quantized_enum: "isQuantizedCacheType (cacheTypeValue c) = spec_quantized c"
  by (cases c) (simp_all add: isQuantizedCacheType_def)

text \<open>Each reason of the code carries the wording of its row of the table.\<close>

lemma reason_off:
  "js_includes (toLowerCase ''Quantized V cache requires flash attention to be enabled'')
     (toLowerCase ''quantized V cache requires flash attention'')"
  by code_simp

lemma reason_on_opencl:
  "js_includes
     (toLowerCase ''OpenCL does not support flash attention (required for quantized V cache)'')
     (toLowerCase ''OpenCL does not support flash attention'')"
  by code_simp

lemma reason_on_hexagon:
  "js_includes
     (toLowerCase ''Hexagon flash attention support varies by device (use \"off\" with F16/F32 for safety)'')
     (toLowerCase ''Hexagon flash attention support varies by device'')"
  by code_simp

lemma reason_auto_opencl:
  "js_includes
     (toLowerCase ''OpenCL auto-disables flash attention, quantized V cache will fail at runtime'')
     (toLowerCase ''OpenCL auto-disables flash attention'')"
  by code_simp

lemma reason_auto_hexagon:
  "js_includes
     (toLowerCase ''Hexagon flash attention support varies by device; quantized V cache may fail at runtime'')
     (toLowerCase ''Hexagon flash attention support varies by device'')"
  by code_simp

lemmas reason_wording =
  reason_off reason_on_opencl reason_on_hexagon reason_auto_opencl reason_auto_hexagon

text \<open>
  Claim C1. For each of the 8 cache types, the 3 flash-attention modes and the 5 backends,
  \<open>isCacheTypeVSafe\<close> returns the verdict of the V-cache rule table: safe for f16 and
  f32 everywhere; for a quantized type unsafe with \<open>off\<close> on every backend, unsafe with
  \<open>on\<close> or \<open>auto\<close> on OpenCL and Hexagon, each time with the reason of that row, and
  safe with \<open>on\<close> or \<open>auto\<close> on Metal, CPU and BLAS.
\<close>

theorem isCacheTypeVSafe_matrix:
  "verdict_matches (isCacheTypeVSafe (cacheTypeValue c) f b)
     (spec_v_table (spec_quantized c) f b)"
proof (cases "spec_quantized c")
  case False
  then show ?thesis
    by (simp add: isCacheTypeVSafe_def quantized_enum)
next
  case True
  then show ?thesis
    by (cases f; cases b; simp add: isCacheTypeVSafe_def quantized_enum reason_wording)
qed

text \<open>
  Claim C10. \<open>isCacheTypeVSafe\<close> takes any string as cache type and treats every string
  other than \<open>f16\<close> and \<open>f32\<close> as quantized: with flash attention \<open>off\<close> the verdict
  is unsafe, on every backend, with the reason that a quantized V cache requires flash
  attention.
\<close>

theorem isCacheTypeVSafe_unknown_string_off:
  assumes "s \<noteq> ''f16''" and "s \<noteq> ''f32''"
  shows "isQuantizedCacheType s \<and>
         isCacheTypeVSafe s Off b =
           \<lparr>safe = False,
            reason = Some ''Quantized V cache requires flash attention to be enabled''\<rparr>"
  using assms by (simp add: isCacheTypeVSafe_def isQuantizedCacheType_def)

theorem isCacheTypeVSafe_unknown_string_off_witness:
  "isQuantizedCacheType ''q6_k'' \<and>
   isCacheTypeVSafe ''q6_k'' Off Metal =
     \<lparr>safe = False,
      reason = Some ''Quantized V cache requires flash attention to be enabled''\<rparr>"
  using isCacheTypeVSafe_unknown_string_off [of "''q6_k''" Metal] by simp

section \<open>Migration\<close>

text \<open>Whatever the input, the result is an object stamped with version 2.0.\<close>

lemma migrate_stamps_current:
  "\<exists>ps. migrateContextInitParams os x = JObj ps \<and> map_of ps ''version'' = Some (JStr ''2.0'')"
  by (simp add: migrateContextInitParams_def Let_def update_conv'
      CURRENT_CONTEXT_INIT_PARAMS_VERSION_def)

text \<open>No block fires on an object at version 2.0, and the final stamp rewrites the tag.\<close>

lemma migrate_current_noop:
  "map_of ps ''version'' = Some (JStr ''2.0'') \<Longrightarrow>
   migrateContextInitParams os (JObj ps) = JObj ps"
  by (simp add: migrateContextInitParams_def default_version_def Let_def js_get_def update_triv
      CURRENT_CONTEXT_INIT_PARAMS_VERSION_def)

text \<open>
  Claim C2. Migration is idempotent: migrating the result of a migration gives that
  result again, for every input; and an object already at the current schema version
  comes back with every field, the version included, as it was.
\<close>

theorem migrate_idempotent:
  "migrateContextInitParams os (migrateContextInitParams os x) = migrateContextInitParams os x
   \<and> (js_get ps ''version'' = JStr CURRENT_CONTEXT_INIT_PARAMS_VERSION \<longrightarrow>
        migrateContextInitParams os (JObj ps) = JObj ps)"
proof
  obtain qs where q: "migrateContextInitParams os x = JObj qs"
      "map_of qs ''version'' = Some (JStr ''2.0'')"
    using migrate_stamps_current by blast
  then show "migrateContextInitParams os (migrateContextInitParams os x)
               = migrateContextInitParams os x"
    by (simp add: migrate_current_noop)
next
  show "js_get ps ''version'' = JStr CURRENT_CONTEXT_INIT_PARAMS_VERSION \<longrightarrow>
        migrateContextInitParams os (JObj ps) = JObj ps"
  proof
    assume "js_get ps ''version'' = JStr CURRENT_CONTEXT_INIT_PARAMS_VERSION"
    then have "map_of ps ''version'' = Some (JStr ''2.0'')"
      by (simp add: js_get_def CURRENT_CONTEXT_INIT_PARAMS_VERSION_def split: option.splits)
    then show "migrateContextInitParams os (JObj ps) = JObj ps"
      by (rule migrate_current_noop)
  qed
qed

theorem migrate_idempotent_witness:
  "migrateContextInitParams Android
     (migrateContextInitParams Android (JObj [(''n_context'', JNum 1024)]))
     = migrateContextInitParams Android (JObj [(''n_context'', JNum 1024)])
   \<and> js_get [(''version'', JStr ''2.0''), (''n_ctx'', JNum 512)] ''version''
       = JStr CURRENT_CONTEXT_INIT_PARAMS_VERSION
   \<and> migrateContextInitParams Android (JObj [(''version'', JStr ''2.0''), (''n_ctx'', JNum 512)])
       = JObj [(''version'', JStr ''2.0''), (''n_ctx'', JNum 512)]"
  using migrate_idempotent [of Android "JObj [(''n_context'', JNum 1024)]"
      "[(''version'', JStr ''2.0''), (''n_ctx'', JNum 512)]"]
  by (simp add: js_get_def CURRENT_CONTEXT_INIT_PARAMS_VERSION_def)

text \<open>Each statement of the migrator leaves the keys it does not name alone.\<close>

lemma rename_n_context_untouched:
  "k \<noteq> ''n_ctx'' \<Longrightarrow> k \<noteq> ''n_context'' \<Longrightarrow> map_of (rename_n_context p) k = map_of p k"
  by (simp add: rename_n_context_def update_conv' delete_conv')

lemma default_use_mlock_untouched:
  "k \<noteq> ''use_mlock'' \<Longrightarrow> map_of (default_use_mlock p) k = map_of p k"
  by (simp add: default_use_mlock_def update_conv')

lemma default_use_mmap_untouched:
  "k \<noteq> ''use_mmap'' \<Longrightarrow> map_of (default_use_mmap os p) k = map_of p k"
  by (simp add: default_use_mmap_def update_conv')

lemma default_no_gpu_devices_untouched:
  "k \<noteq> ''no_gpu_devices'' \<Longrightarrow> map_of (default_no_gpu_devices p) k = map_of p k"
  by (simp add: default_no_gpu_devices_def update_conv')

lemma migrate_no_gpu_devices_untouched:
  "k \<noteq> ''devices'' \<Longrightarrow> k \<noteq> ''n_gpu_layers'' \<Longrightarrow>
   map_of (migrate_no_gpu_devices p) k = map_of p k"
  by (simp add: migrate_no_gpu_devices_def update_conv' Let_def)

lemma migrate_flash_attn_untouched:
  "k \<noteq> ''flash_attn_type'' \<Longrightarrow> map_of (migrate_flash_attn os p) k = map_of p k"
  by (simp add: migrate_flash_attn_def update_conv')

lemma default_kv_unified_untouched:
  "k \<noteq> ''kv_unified'' \<Longrightarrow> map_of (default_kv_unified p) k = map_of p k"
  by (simp add: default_kv_unified_def update_conv')

lemma default_n_parallel_untouched:
  "k \<noteq> ''n_parallel'' \<Longrightarrow> map_of (default_n_parallel p) k = map_of p k"
  by (simp add: default_n_parallel_def update_conv')

lemma bump_default_n_ctx_untouched:
  "k \<noteq> ''n_ctx'' \<Longrightarrow> map_of (bump_default_n_ctx p) k = map_of p k"
  by (simp add: bump_default_n_ctx_def update_conv')

lemma default_version_untouched:
  "k \<noteq> ''version'' \<Longrightarrow> map_of (default_version p) k = map_of p k"
  by (simp add: default_version_def update_conv')

lemmas untouched = rename_n_context_untouched default_use_mlock_untouched
  default_use_mmap_untouched default_no_gpu_devices_untouched migrate_no_gpu_devices_untouched
  migrate_flash_attn_untouched default_kv_unified_untouched default_n_parallel_untouched
  bump_default_n_ctx_untouched default_version_untouched

lemma migrate_legacy_untouched:
  "k \<notin> {''n_ctx'', ''n_context'', ''use_mlock'', ''use_mmap'', ''no_gpu_devices'', ''version''}
   \<Longrightarrow> map_of (migrate_legacy_to_1_0 os p) k = map_of p k"
  by (simp add: migrate_legacy_to_1_0_def Let_def update_conv' untouched)

lemma migrate_2_0_untouched:
  "k \<notin> {''devices'', ''n_gpu_layers'', ''flash_attn_type'', ''kv_unified'', ''n_parallel'',
          ''n_ctx'', ''version''}
   \<Longrightarrow> map_of (migrate_1_0_to_2_0 os p) k = map_of p k"
  by (simp add: migrate_1_0_to_2_0_def Let_def update_conv' untouched)

text \<open>Migration reads and writes eleven keys; every other property passes through.\<close>

lemma migrate_untouched:
  assumes "k \<notin> {''n_ctx'', ''n_context'', ''use_mlock'', ''use_mmap'', ''no_gpu_devices'',
                 ''version'', ''devices'', ''n_gpu_layers'', ''flash_attn_type'',
                 ''kv_unified'', ''n_parallel''}"
  shows "map_of (js_spread (migrateContextInitParams os x)) k = map_of (js_spread x) k"
  using assms
  by (simp add: migrateContextInitParams_def Let_def update_conv' migrate_legacy_untouched
      migrate_2_0_untouched default_version_untouched)


text \<open>The migrator reads its argument through the spread only.\<close>

lemma migrate_reads_props:
  "js_spread x = js_spread y \<Longrightarrow>
   migrateContextInitParams os x = migrateContextInitParams os y"
  by (simp add: migrateContextInitParams_def)

lemma migrate_empty_object:
  "migrateContextInitParams os (JObj []) =
     JObj [(''version'', JStr ''2.0''),
           (''use_mlock'', JBool False),
           (''use_mmap'', JStr (if os = Android then ''smart'' else ''true'')),
           (''no_gpu_devices'', JBool False),
           (''devices'', JUndefined),
           (''n_gpu_layers'', JNum 99),
           (''flash_attn_type'', JStr (if os = Ios then ''auto'' else ''off'')),
           (''kv_unified'', JBool True),
           (''n_parallel'', JNum 1)]"
  by (cases os; hypsubst; code_simp)

lemma migrate_empty:
  "js_spread x = [] \<Longrightarrow> migrateContextInitParams os x = migrateContextInitParams os (JObj [])"
  by (rule migrate_reads_props) simp

text \<open>
  Claim C3, as stated, fails: for \<open>null\<close> the migrator does not return the default
  configuration of \<open>createDefaultContextInitParams\<close>.
\<close>

theorem migrate_null_not_default:
  "migrateContextInitParams Android JNull \<noteq> createDefaultContextInitParams Android"
  by code_simp

lemma every_in_true:
  "every_in fs v = Inr True \<longleftrightarrow> (\<forall>f\<in>set fs. js_in f v = Inr True)"
  by (induction fs) (auto split: sum.splits)

lemma validate_empty_migration:
  "validateContextInitParams (migrateContextInitParams os (JObj [])) = Inr False"
  by (cases os; hypsubst; code_simp)


text \<open>
  Claim C3, amended. \<open>migrateContextInitParams\<close> returns an object for every input and
  never raises, but it has no fallback to \<open>createDefaultContextInitParams\<close>: a field
  among \<open>n_batch\<close>, \<open>n_ubatch\<close>, \<open>n_threads\<close>, \<open>cache_type_k\<close> and
  \<open>cache_type_v\<close> is in the result exactly when it is in the input, and for an input
  without properties (\<open>null\<close>, \<open>undefined\<close>, \<open>{}\<close>, a number, a boolean) the result
  is the nine fields the migration blocks write, which \<open>validateContextInitParams\<close>
  rejects.
\<close>

theorem migrate_total_without_fallback:
  "(\<exists>ps. migrateContextInitParams os x = JObj ps) \<and>
   (\<forall>k \<in> set [''n_batch'', ''n_ubatch'', ''n_threads'', ''cache_type_k'', ''cache_type_v''].
      has_key k (js_spread (migrateContextInitParams os x)) = has_key k (js_spread x)) \<and>
   (js_spread x = [] \<longrightarrow>
      migrateContextInitParams os x =
        JObj [(''version'', JStr ''2.0''),
              (''use_mlock'', JBool False),
              (''use_mmap'', JStr (if os = Android then ''smart'' else ''true'')),
              (''no_gpu_devices'', JBool False),
              (''devices'', JUndefined),
              (''n_gpu_layers'', JNum 99),
              (''flash_attn_type'', JStr (if os = Ios then ''auto'' else ''off'')),
              (''kv_unified'', JBool True),
              (''n_parallel'', JNum 1)] \<and>
      validateContextInitParams (migrateContextInitParams os x) = Inr False)"
proof (intro conjI impI)
  show "\<exists>ps. migrateContextInitParams os x = JObj ps"
    using migrate_stamps_current by blast
next
  show "\<forall>k \<in> set [''n_batch'', ''n_ubatch'', ''n_threads'', ''cache_type_k'', ''cache_type_v''].
      has_key k (js_spread (migrateContextInitParams os x)) = has_key k (js_spread x)"
    by (simp add: has_key_def migrate_untouched)
next
  assume "js_spread x = []"
  then show "migrateContextInitParams os x =
        JObj [(''version'', JStr ''2.0''),
              (''use_mlock'', JBool False),
              (''use_mmap'', JStr (if os = Android then ''smart'' else ''true'')),
              (''no_gpu_devices'', JBool False),
              (''devices'', JUndefined),
              (''n_gpu_layers'', JNum 99),
              (''flash_attn_type'', JStr (if os = Ios then ''auto'' else ''off'')),
              (''kv_unified'', JBool True),
              (''n_parallel'', JNum 1)]"
    by (simp only: migrate_empty migrate_empty_object)
next
  assume "js_spread x = []"
  then show "validateContextInitParams (migrateContextInitParams os x) = Inr False"
    by (simp only: migrate_empty validate_empty_migration)
qed

theorem migrate_total_without_fallback_witness:
  "js_spread JNull = [] \<and>
   validateContextInitParams (migrateContextInitParams Ios JNull) = Inr False \<and>
   \<not> has_key ''n_batch'' (js_spread (migrateContextInitParams Ios JNull))"
proof -
  note t = migrate_total_without_fallback [of Ios JNull]
  have e: "js_spread JNull = []" by simp
  from t e have v: "validateContextInitParams (migrateContextInitParams Ios JNull) = Inr False"
    by blast
  from t have "\<forall>k \<in> set [''n_batch'', ''n_ubatch'', ''n_threads'', ''cache_type_k'',
        ''cache_type_v''].
      has_key k (js_spread (migrateContextInitParams Ios JNull)) = has_key k (js_spread JNull)"
    by (rule conjunct1 [OF conjunct2])
  then have "has_key ''n_batch'' (js_spread (migrateContextInitParams Ios JNull))
      = has_key ''n_batch'' (js_spread JNull)"
    by (rule bspec) simp
  then have n: "\<not> has_key ''n_batch'' (js_spread (migrateContextInitParams Ios JNull))"
    by (simp add: has_key_def)
  from e v n show ?thesis by blast
qed

section \<open>Version stamping\<close>

text \<open>
  Claim C4, as stated, fails: a blob tagged \<open>3.0\<close> comes back tagged \<open>2.0\<close>, an
  earlier version.
\<close>

theorem migrate_future_version_counterexample:
  "js_get (js_spread future_blob) ''version'' = JStr ''3.0'' \<and>
   js_get (js_spread (migrateContextInitParams Android future_blob)) ''version'' = JStr ''2.0'' \<and>
   version_earlier ''2.0'' ''3.0''"
  by code_simp

lemma migrate_version_read:
  "js_get (js_spread (migrateContextInitParams os x)) ''version''
     = JStr CURRENT_CONTEXT_INIT_PARAMS_VERSION"
proof -
  obtain ps where "migrateContextInitParams os x = JObj ps"
      "map_of ps ''version'' = Some (JStr ''2.0'')"
    using migrate_stamps_current by blast
  then show ?thesis
    by (simp add: js_get_def CURRENT_CONTEXT_INIT_PARAMS_VERSION_def)
qed

text \<open>
  Claim C4, amended. The version of a migrated blob is the current schema version
  \<open>2.0\<close>, whatever the input; so it is not earlier than the input's version \<open>v\<close>
  whenever \<open>v\<close> is not newer than the current version.
\<close>

theorem migrate_version_current:
  "js_get (js_spread (migrateContextInitParams os x)) ''version''
     = JStr CURRENT_CONTEXT_INIT_PARAMS_VERSION
   \<and> (js_get (js_spread x) ''version'' = JStr v \<and>
        \<not> version_earlier CURRENT_CONTEXT_INIT_PARAMS_VERSION v \<longrightarrow>
        (\<exists>w. js_get (js_spread (migrateContextInitParams os x)) ''version'' = JStr w \<and>
             \<not> version_earlier w v))"
  by (simp add: migrate_version_read)

theorem migrate_version_current_witness:
  "js_get (js_spread (JObj [(''version'', JStr ''1.0'')])) ''version'' = JStr ''1.0'' \<and>
   \<not> version_earlier CURRENT_CONTEXT_INIT_PARAMS_VERSION ''1.0'' \<and>
   (\<exists>w. js_get (js_spread (migrateContextInitParams Ios (JObj [(''version'', JStr ''1.0'')])))
          ''version'' = JStr w \<and> \<not> version_earlier w ''1.0'')"
proof -
  have a: "js_get (js_spread (JObj [(''version'', JStr ''1.0'')])) ''version'' = JStr ''1.0''"
    by (simp add: js_get_def)
  have b: "\<not> version_earlier CURRENT_CONTEXT_INIT_PARAMS_VERSION ''1.0''"
    by code_simp
  from migrate_version_current [of Ios "JObj [(''version'', JStr ''1.0'')]" "''1.0''"] a b
  show ?thesis by blast
qed

section \<open>Validation\<close>

text \<open>
  Claim C9, as stated, fails: an object with the ten fields of schema 1.0 and without
  \<open>flash_attn_type\<close>, \<open>kv_unified\<close> and \<open>n_parallel\<close> is accepted.
\<close>

theorem validate_ignores_v2_fields_counterexample:
  "validateContextInitParams v1_fields_only = Inr True \<and>
   js_in ''flash_attn_type'' v1_fields_only = Inr False \<and>
   js_in ''kv_unified'' v1_fields_only = Inr False \<and>
   js_in ''n_parallel'' v1_fields_only = Inr False"
  by code_simp

text \<open>
  Claim C9, amended. \<open>validateContextInitParams\<close> returns true if and only if each of
  the ten fields \<open>version\<close>, \<open>n_ctx\<close>, \<open>n_batch\<close>, \<open>n_ubatch\<close>, \<open>n_threads\<close>,
  \<open>cache_type_k\<close>, \<open>cache_type_v\<close>, \<open>n_gpu_layers\<close>, \<open>use_mlock\<close> and
  \<open>use_mmap\<close> is present in the value; \<open>flash_attn_type\<close>, \<open>kv_unified\<close>,
  \<open>n_parallel\<close> and \<open>devices\<close> are not required.
\<close>

theorem validate_required_fields:
  "(validateContextInitParams v = Inr True) =
   (\<forall>f \<in> set [''version'', ''n_ctx'', ''n_batch'', ''n_ubatch'', ''n_threads'',
               ''cache_type_k'', ''cache_type_v'', ''n_gpu_layers'', ''use_mlock'',
               ''use_mmap'']. js_in f v = Inr True)"
  unfolding validateContextInitParams_def requiredFields_def by (rule every_in_true)

theorem validate_required_fields_witness:
  "validateContextInitParams (createDefaultContextInitParams Ios) = Inr True \<and>
   validateContextInitParams v1_fields_only = Inr True \<and>
   js_in ''n_ctx'' v1_fields_only = Inr True \<and>
   validateContextInitParams (JObj [(''version'', JStr ''2.0'')]) \<noteq> Inr True"
proof -
  have a: "\<forall>f \<in> set [''version'', ''n_ctx'', ''n_batch'', ''n_ubatch'', ''n_threads'',
               ''cache_type_k'', ''cache_type_v'', ''n_gpu_layers'', ''use_mlock'',
               ''use_mmap'']. js_in f (createDefaultContextInitParams Ios) = Inr True"
    by code_simp
  have b: "\<forall>f \<in> set [''version'', ''n_ctx'', ''n_batch'', ''n_ubatch'', ''n_threads'',
               ''cache_type_k'', ''cache_type_v'', ''n_gpu_layers'', ''use_mlock'',
               ''use_mmap'']. js_in f v1_fields_only = Inr True"
    by code_simp
  have c: "js_in ''n_ctx'' (JObj [(''version'', JStr ''2.0'')]) \<noteq> Inr True"
    by code_simp
  have c': "validateContextInitParams (JObj [(''version'', JStr ''2.0'')]) \<noteq> Inr True"
    using validate_required_fields [of "JObj [(''version'', JStr ''2.0'')]"] c by auto
  from b have d: "js_in ''n_ctx'' v1_fields_only = Inr True" by simp
  from a b c' d validate_required_fields [of "createDefaultContextInitParams Ios"]
    validate_required_fields [of v1_fields_only]
  show ?thesis by blast
qed

section \<open>Backend resolution\<close>

text \<open>An identifier that starts with \<open>HTP\<close> is neither \<open>metal\<close> nor \<open>cpu\<close> in lower case.\<close>

lemma lower_H: "lower_char CHR ''H'' = CHR ''h''"
  by code_simp

lemma startsWith_HTP_lower:
  assumes "startsWith d ''HTP''"
  shows "\<exists>r. toLowerCase d = CHR ''h'' # r"
  using assms by (cases d) (auto simp add: startsWith_def toLowerCase_def lower_H)

lemma startsWith_HTP_not_metal_cpu:
  "startsWith d ''HTP'' \<Longrightarrow> toLowerCase d \<noteq> ''metal'' \<and> toLowerCase d \<noteq> ''cpu''"
  using startsWith_HTP_lower [of d] by auto

text \<open>
  Claim C5. \<open>inferBackendType\<close> follows the ordered rules of the backend resolver. For
  a non-empty device list the first entry decides: \<open>metal\<close> in any letter case gives
  Metal, \<open>cpu\<close> in any letter case gives CPU, an entry starting with \<open>HTP\<close> gives
  Hexagon, any other entry gives OpenCL on Android and CPU elsewhere. For an absent or
  empty list the result is Metal on iOS, and on Android OpenCL if the probe reports a
  device of type \<open>gpu\<close> and CPU otherwise, also when the probe fails.
\<close>

theorem inferBackendType_rules:
  "(toLowerCase d = ''metal'' \<longrightarrow> inferBackendType os probe (Some (d # ds)) = Metal) \<and>
   (toLowerCase d = ''cpu'' \<longrightarrow> inferBackendType os probe (Some (d # ds)) = Cpu) \<and>
   (startsWith d ''HTP'' \<longrightarrow> inferBackendType os probe (Some (d # ds)) = Hexagon) \<and>
   (toLowerCase d \<noteq> ''metal'' \<and> toLowerCase d \<noteq> ''cpu'' \<and> \<not> startsWith d ''HTP'' \<longrightarrow>
      inferBackendType Android probe (Some (d # ds)) = Opencl \<and>
      (os \<noteq> Android \<longrightarrow> inferBackendType os probe (Some (d # ds)) = Cpu)) \<and>
   (devs = None \<or> devs = Some [] \<longrightarrow>
      inferBackendType Ios probe devs = Metal \<and>
      inferBackendType Android probe devs =
        (if \<exists>dev \<in> set (getAvailableDevices probe). dev_type dev = ''gpu''
         then Opencl else Cpu) \<and>
      inferBackendType Android ProbeThrows devs = Cpu)"
proof (intro conjI impI)
  assume "startsWith d ''HTP''"
  then show "inferBackendType os probe (Some (d # ds)) = Hexagon"
    using startsWith_HTP_not_metal_cpu [of d] by (simp add: inferBackendType_def)
next
  assume "devs = None \<or> devs = Some []"
  then show "inferBackendType Android probe devs =
        (if \<exists>dev \<in> set (getAvailableDevices probe). dev_type dev = ''gpu''
         then Opencl else Cpu)"
    by (auto simp add: inferBackendType_def list_ex_iff)
next
  assume "devs = None \<or> devs = Some []"
  then show "inferBackendType Android ProbeThrows devs = Cpu"
    by (auto simp add: inferBackendType_def getAvailableDevices_def)
qed (auto simp add: inferBackendType_def)

theorem inferBackendType_rules_witness:
  "inferBackendType Ios ProbeThrows (Some [''Metal'']) = Metal \<and>
   inferBackendType Android ProbeThrows (Some [''CPU'']) = Cpu \<and>
   inferBackendType Android ProbeThrows (Some [''HTP0'']) = Hexagon \<and>
   inferBackendType Android ProbeThrows (Some [''Adreno (TM) 750'']) = Opencl \<and>
   inferBackendType Ios ProbeThrows (Some [''blah-blah'']) = Cpu \<and>
   inferBackendType Ios ProbeThrows None = Metal \<and>
   inferBackendType Android snapdragon_probe (Some []) = Opencl \<and>
   inferBackendType Android cpu_only_probe None = Cpu \<and>
   inferBackendType Android ProbeThrows None = Cpu"
proof -
  have l1: "toLowerCase ''Metal'' = ''metal''" by code_simp
  have l2: "toLowerCase ''CPU'' = ''cpu''" by code_simp
  have l3: "startsWith ''HTP0'' ''HTP''" by code_simp
  have l4: "toLowerCase ''Adreno (TM) 750'' \<noteq> ''metal'' \<and>
            toLowerCase ''Adreno (TM) 750'' \<noteq> ''cpu'' \<and>
            \<not> startsWith ''Adreno (TM) 750'' ''HTP''" by code_simp
  have l5: "toLowerCase ''blah-blah'' \<noteq> ''metal'' \<and>
            toLowerCase ''blah-blah'' \<noteq> ''cpu'' \<and>
            \<not> startsWith ''blah-blah'' ''HTP''" by code_simp
  have g1: "\<exists>dev \<in> set (getAvailableDevices snapdragon_probe). dev_type dev = ''gpu''"
    by (simp add: snapdragon_probe_def getAvailableDevices_def)
  have g2: "\<not> (\<exists>dev \<in> set (getAvailableDevices cpu_only_probe). dev_type dev = ''gpu'')"
    by (simp add: cpu_only_probe_def getAvailableDevices_def)
  from inferBackendType_rules [of "''Metal''" Ios ProbeThrows "[]" None] l1
  have a: "inferBackendType Ios ProbeThrows (Some [''Metal'']) = Metal
           \<and> inferBackendType Ios ProbeThrows None = Metal
           \<and> inferBackendType Android ProbeThrows None = Cpu" by blast
  from inferBackendType_rules [of "''CPU''" Android ProbeThrows "[]" None] l2
  have b: "inferBackendType Android ProbeThrows (Some [''CPU'']) = Cpu" by blast
  from inferBackendType_rules [of "''HTP0''" Android ProbeThrows "[]" None] l3
  have c: "inferBackendType Android ProbeThrows (Some [''HTP0'']) = Hexagon" by blast
  from inferBackendType_rules [of "''Adreno (TM) 750''" Android ProbeThrows "[]" None] l4
  have d: "inferBackendType Android ProbeThrows (Some [''Adreno (TM) 750'']) = Opencl" by blast
  from inferBackendType_rules [of "''blah-blah''" Ios ProbeThrows "[]" None] l5
  have e: "inferBackendType Ios ProbeThrows (Some [''blah-blah'']) = Cpu" by blast
  from inferBackendType_rules [of "''x''" Ios snapdragon_probe "[]" "Some []"] g1
  have f: "inferBackendType Android snapdragon_probe (Some []) = Opencl" by simp
  from inferBackendType_rules [of "''x''" Ios cpu_only_probe "[]" None] g2
  have g: "inferBackendType Android cpu_only_probe None = Cpu" by simp
  from a b c d e f g show ?thesis by blast
qed

section \<open>Device catalog\<close>

lemma find_Some_holds: "find P xs = Some x \<Longrightarrow> x \<in> set xs \<and> P x"
  by (induction xs) (auto split: if_splits)

text \<open>Off iOS the catalog is the CPU option, then GPU and Hexagon as the probe allows.\<close>

lemma getDeviceOptions_ids:
  assumes "os \<noteq> Ios"
  shows "map option_id (getDeviceOptions os probe) =
     [CpuId]
     @ (if \<exists>d \<in> set (getAvailableDevices probe). dev_type d = ''gpu'' then [GpuId] else [])
     @ (if \<exists>d \<in> set (getAvailableDevices probe). startsWith (deviceName d) ''HTP''
        then [HexagonId] else [])"
proof (cases "find (\<lambda>d. dev_type d = ''gpu'') (getAvailableDevices probe)")
  case None
  then have "\<not> (\<exists>d \<in> set (getAvailableDevices probe). dev_type d = ''gpu'')"
    by (simp add: find_None_iff)
  with None assms show ?thesis
    by (simp add: getDeviceOptions_def Let_def filter_empty_conv)
next
  case (Some g)
  then have "\<exists>d \<in> set (getAvailableDevices probe). dev_type d = ''gpu''"
    using find_Some_holds by fastforce
  with Some assms show ?thesis
    by (simp add: getDeviceOptions_def Let_def filter_empty_conv)
qed

lemma has_option_id:
  "(\<exists>opt \<in> set opts. option_id opt = i) = (i \<in> set (map option_id opts))"
  by auto

text \<open>
  Claim C7. Off iOS, so on Android, when the probe reports no device of type \<open>gpu\<close>
  and no device named \<open>HTP...\<close>, the catalog is exactly one option, with id \<open>cpu\<close>,
  no GPU layers and default flash attention \<open>off\<close>; a \<open>gpu\<close> option is in the
  catalog exactly when the probe reports a device of type \<open>gpu\<close>, and a \<open>hexagon\<close>
  option exactly when it reports a device whose name starts with \<open>HTP\<close>.
\<close>

theorem getDeviceOptions_android_catalog:
  assumes "os \<noteq> Ios"
  shows
  "((\<not> (\<exists>d \<in> set (getAvailableDevices probe). dev_type d = ''gpu'') \<and>
     \<not> (\<exists>d \<in> set (getAvailableDevices probe). startsWith (deviceName d) ''HTP'')) \<longrightarrow>
      (\<exists>opt. getDeviceOptions os probe = [opt] \<and> option_id opt = CpuId \<and>
             n_gpu_layers opt = 0 \<and> default_flash_attn_type opt = Off)) \<and>
   ((\<exists>opt \<in> set (getDeviceOptions os probe). option_id opt = GpuId) =
      (\<exists>d \<in> set (getAvailableDevices probe). dev_type d = ''gpu'')) \<and>
   ((\<exists>opt \<in> set (getDeviceOptions os probe). option_id opt = HexagonId) =
      (\<exists>d \<in> set (getAvailableDevices probe). startsWith (deviceName d) ''HTP''))"
proof (intro conjI impI)
  assume "\<not> (\<exists>d \<in> set (getAvailableDevices probe). dev_type d = ''gpu'') \<and>
     \<not> (\<exists>d \<in> set (getAvailableDevices probe). startsWith (deviceName d) ''HTP'')"
  then have "find (\<lambda>d. dev_type d = ''gpu'') (getAvailableDevices probe) = None"
     and "filter (\<lambda>d. startsWith (deviceName d) ''HTP'') (getAvailableDevices probe) = []"
    by (simp_all add: find_None_iff filter_empty_conv)
  with assms show "\<exists>opt. getDeviceOptions os probe = [opt] \<and> option_id opt = CpuId \<and>
             n_gpu_layers opt = 0 \<and> default_flash_attn_type opt = Off"
    by (simp add: getDeviceOptions_def Let_def)
next
  show "(\<exists>opt \<in> set (getDeviceOptions os probe). option_id opt = GpuId) =
      (\<exists>d \<in> set (getAvailableDevices probe). dev_type d = ''gpu'')"
    unfolding has_option_id getDeviceOptions_ids [OF assms] by simp
next
  show "(\<exists>opt \<in> set (getDeviceOptions os probe). option_id opt = HexagonId) =
      (\<exists>d \<in> set (getAvailableDevices probe). startsWith (deviceName d) ''HTP'')"
    unfolding has_option_id getDeviceOptions_ids [OF assms] by simp
qed

theorem getDeviceOptions_android_catalog_witness:
  "Android \<noteq> Ios \<and>
   \<not> (\<exists>d \<in> set (getAvailableDevices cpu_only_probe). dev_type d = ''gpu'') \<and>
   \<not> (\<exists>d \<in> set (getAvailableDevices cpu_only_probe). startsWith (deviceName d) ''HTP'') \<and>
   (\<exists>opt. getDeviceOptions Android cpu_only_probe = [opt] \<and> option_id opt = CpuId \<and>
          n_gpu_layers opt = 0 \<and> default_flash_attn_type opt = Off) \<and>
   (\<exists>opt \<in> set (getDeviceOptions Android snapdragon_probe). option_id opt = GpuId) \<and>
   (\<exists>opt \<in> set (getDeviceOptions Android snapdragon_probe). option_id opt = HexagonId)"
proof -
  have os: "Android \<noteq> Ios" by simp
  have n1: "\<not> (\<exists>d \<in> set (getAvailableDevices cpu_only_probe). dev_type d = ''gpu'')"
    by (simp add: cpu_only_probe_def getAvailableDevices_def)
  have n2: "\<not> (\<exists>d \<in> set (getAvailableDevices cpu_only_probe).
               startsWith (deviceName d) ''HTP'')"
    by (simp add: cpu_only_probe_def getAvailableDevices_def startsWith_def)
  have y1: "\<exists>d \<in> set (getAvailableDevices snapdragon_probe). dev_type d = ''gpu''"
    by (simp add: snapdragon_probe_def getAvailableDevices_def)
  have y2: "\<exists>d \<in> set (getAvailableDevices snapdragon_probe). startsWith (deviceName d) ''HTP''"
    by (simp add: snapdragon_probe_def getAvailableDevices_def startsWith_def)
  from getDeviceOptions_android_catalog [OF os, of cpu_only_probe] n1 n2
  have a: "\<exists>opt. getDeviceOptions Android cpu_only_probe = [opt] \<and> option_id opt = CpuId \<and>
          n_gpu_layers opt = 0 \<and> default_flash_attn_type opt = Off"
    by blast
  from getDeviceOptions_android_catalog [OF os, of snapdragon_probe] y1 y2
  have b: "(\<exists>opt \<in> set (getDeviceOptions Android snapdragon_probe). option_id opt = GpuId) \<and>
   (\<exists>opt \<in> set (getDeviceOptions Android snapdragon_probe). option_id opt = HexagonId)"
    by blast
  from os n1 n2 a b show ?thesis by blast
qed

text \<open>
  Claim C8. Every option of the catalog, on every platform and for every probe result,
  has its default flash-attention mode among its valid modes, so the list of valid
  modes is never empty.
\<close>

theorem getDeviceOptions_default_valid:
  "\<forall>opt \<in> set (getDeviceOptions os probe).
     default_flash_attn_type opt \<in> set (valid_flash_attn_types opt) \<and>
     valid_flash_attn_types opt \<noteq> []"
  by (cases "find (\<lambda>d. dev_type d = ''gpu'') (getAvailableDevices probe)")
     (auto simp add: getDeviceOptions_def Let_def)

theorem getDeviceOptions_default_valid_witness:
  "getDeviceOptions Android snapdragon_probe ! 1 \<in> set (getDeviceOptions Android snapdragon_probe) \<and>
   default_flash_attn_type (getDeviceOptions Android snapdragon_probe ! 1)
     \<in> set (valid_flash_attn_types (getDeviceOptions Android snapdragon_probe ! 1)) \<and>
   valid_flash_attn_types (getDeviceOptions Android snapdragon_probe ! 1) \<noteq> []"
proof -
  have "getDeviceOptions Android snapdragon_probe ! 1
      \<in> set (getDeviceOptions Android snapdragon_probe)"
    by (simp add: getDeviceOptions_def getAvailableDevices_def snapdragon_probe_def Let_def)
  with getDeviceOptions_default_valid [of Android snapdragon_probe] show ?thesis
    by blast
qed

section \<open>Selecting a device\<close>

text \<open>
  Claim C6. Selecting a device option sets \<open>flash_attn_type\<close> to the option's default
  exactly when the current flash-attention mode (the configured one, or the platform
  default where none is configured) is not among the option's valid modes, and leaves
  the configured value as it is otherwise: a configured mode \<open>fa\<close> stays \<open>fa\<close> if it
  is valid for the option and becomes the option's default if not. The devices become
  those of the option. In particular an option whose only valid mode, and default, is \<open>off\<close> turns a
  configured \<open>auto\<close> into \<open>off\<close>.
\<close>

theorem handleDeviceSelect_flash_attn:
  "store_flash_attn_type (handleDeviceSelect os opt st) =
     (if currentFlashAttn os st \<in> set (valid_flash_attn_types opt)
      then store_flash_attn_type st
      else Some (default_flash_attn_type opt))
   \<and> (store_flash_attn_type st = Some fa \<longrightarrow>
        store_flash_attn_type (handleDeviceSelect os opt st) =
          Some (if fa \<in> set (valid_flash_attn_types opt) then fa
                else default_flash_attn_type opt))
   \<and> store_devices (handleDeviceSelect os opt st) = devices opt
   \<and> (valid_flash_attn_types opt = [Off] \<and> default_flash_attn_type opt = Off \<and>
        store_flash_attn_type st = Some Auto \<longrightarrow>
        store_flash_attn_type (handleDeviceSelect os opt st) = Some Off)"
  by (simp add: handleDeviceSelect_def setDevices_def setFlashAttnType_def currentFlashAttn_def
      Let_def)

theorem handleDeviceSelect_flash_attn_witness:
  "option_id (getDeviceOptions Android snapdragon_probe ! 1) = GpuId \<and>
   valid_flash_attn_types (getDeviceOptions Android snapdragon_probe ! 1) = [Off] \<and>
   default_flash_attn_type (getDeviceOptions Android snapdragon_probe ! 1) = Off \<and>
   store_flash_attn_type
     (handleDeviceSelect Android (getDeviceOptions Android snapdragon_probe ! 1)
        \<lparr>store_devices = Some [''CPU''], store_flash_attn_type = Some Auto\<rparr>) = Some Off \<and>
   store_flash_attn_type
     (handleDeviceSelect Android (getDeviceOptions Android snapdragon_probe ! 0)
        \<lparr>store_devices = Some [''CPU''], store_flash_attn_type = Some Auto\<rparr>) = Some Auto"
proof -
  have g: "option_id (getDeviceOptions Android snapdragon_probe ! 1) = GpuId \<and>
      valid_flash_attn_types (getDeviceOptions Android snapdragon_probe ! 1) = [Off] \<and>
      default_flash_attn_type (getDeviceOptions Android snapdragon_probe ! 1) = Off"
    by (simp add: getDeviceOptions_def getAvailableDevices_def snapdragon_probe_def Let_def)
  have c: "valid_flash_attn_types (getDeviceOptions Android snapdragon_probe ! 0)
      = [Auto, On, Off]"
    by (simp add: getDeviceOptions_def getAvailableDevices_def snapdragon_probe_def Let_def)
  have s: "store_flash_attn_type
      \<lparr>store_devices = Some [''CPU''], store_flash_attn_type = Some Auto\<rparr> = Some Auto"
    by simp
  from handleDeviceSelect_flash_attn [of Android
      "getDeviceOptions Android snapdragon_probe ! 1"
      "\<lparr>store_devices = Some [''CPU''], store_flash_attn_type = Some Auto\<rparr>" Auto] g s
  have a: "store_flash_attn_type
     (handleDeviceSelect Android (getDeviceOptions Android snapdragon_probe ! 1)
        \<lparr>store_devices = Some [''CPU''], store_flash_attn_type = Some Auto\<rparr>) = Some Off"
    by blast
  from handleDeviceSelect_flash_attn [of Android
      "getDeviceOptions Android snapdragon_probe ! 0"
      "\<lparr>store_devices = Some [''CPU''], store_flash_attn_type = Some Auto\<rparr>" Auto] s
  have "store_flash_attn_type
     (handleDeviceSelect Android (getDeviceOptions Android snapdragon_probe ! 0)
        \<lparr>store_devices = Some [''CPU''], store_flash_attn_type = Some Auto\<rparr>) =
     Some (if Auto \<in> set (valid_flash_attn_types (getDeviceOptions Android snapdragon_probe ! 0))
           then Auto
           else default_flash_attn_type (getDeviceOptions Android snapdragon_probe ! 0))"
    by blast
  with c have b: "store_flash_attn_type
     (handleDeviceSelect Android (getDeviceOptions Android snapdragon_probe ! 0)
        \<lparr>store_devices = Some [''CPU''], store_flash_attn_type = Some Auto\<rparr>) = Some Auto"
    by simp
  from g a b show ?thesis by blast
qed

end
